theory Spec2Isabelle
  imports Complex_Main "HOL-Library.Word" "HOL-Library.Sublist"
begin

section \<open>JavaScript strings\<close>

text \<open>
  A JavaScript string is a sequence of 16-bit code units. The string methods that
  \<^verbatim>\<open>HudInterface\<close> calls (\<^verbatim>\<open>split\<close> with a one-character separator,
  \<^verbatim>\<open>trim\<close>, truthiness) work on code units, so that is what the model keeps.
  \<open>js\<close> turns an ASCII literal into its code units; a character beyond ASCII is written
  as its code unit (the degree sign of the weather prompt's example is \<open>0xB0\<close>).
\<close>

type_synonym jsstring = "16 word list"

definition js :: "string \<Rightarrow> jsstring" where
  "js s = map (\<lambda>c. of_nat (of_char c)) s"

text \<open>
  \<^verbatim>\<open>String.prototype.trim\<close> strips ECMAScript WhiteSpace and LineTerminator code
  points from both ends: TAB, LF, VT, FF, CR, SP, NBSP, the space separators
  (U+1680, U+2000 to U+200A, U+202F, U+205F, U+3000), LS, PS and the BOM.
\<close>

definition is_ws :: "16 word \<Rightarrow> bool" where
  "is_ws c =
     (c = 0x9 \<or> c = 0xA \<or> c = 0xB \<or> c = 0xC \<or> c = 0xD \<or> c = 0x20 \<or> c = 0xA0
      \<or> c = 0x1680 \<or> (0x2000 \<le> c \<and> c \<le> 0x200A) \<or> c = 0x2028 \<or> c = 0x2029
      \<or> c = 0x202F \<or> c = 0x205F \<or> c = 0x3000 \<or> c = 0xFEFF)"

definition trim :: "jsstring \<Rightarrow> jsstring" where
  "trim s = rev (dropWhile is_ws (rev (dropWhile is_ws s)))"

text \<open>
  \<^verbatim>\<open>s.split(sep)\<close> for a separator of one code unit: the pieces between the
  occurrences of \<open>sep\<close>, empty pieces included; the empty string gives one empty piece.
  The result is never empty, so the \<open>[]\<close> branch of the case is never taken.
\<close>

fun split_on :: "'a \<Rightarrow> 'a list \<Rightarrow> 'a list list" where
  "split_on sep [] = [[]]"
| "split_on sep (c # cs) =
     (if c = sep then [] # split_on sep cs
      else (case split_on sep cs of
              [] \<Rightarrow> [[c]]
            | p # ps \<Rightarrow> (c # p) # ps))"

text \<open>\<^verbatim>\<open>pieces.join(sep)\<close>, the inverse of \<open>split_on\<close>; used only to validate it.\<close>

fun join_with :: "'a \<Rightarrow> 'a list list \<Rightarrow> 'a list" where
  "join_with sep [] = []"
| "join_with sep [p] = p"
| "join_with sep (p # q # ps) = p @ sep # join_with sep (q # ps)"

abbreviation BAR :: "16 word" where "BAR \<equiv> 0x7C"
abbreviation NEWLINE :: "16 word" where "NEWLINE \<equiv> 0xA"

text \<open>
  Truthiness of a value of type \<^verbatim>\<open>string | null | undefined\<close>: \<open>None\<close> stands for
  \<^verbatim>\<open>null\<close> and \<^verbatim>\<open>undefined\<close>, both falsy, and so is the empty string.
\<close>

definition truthy :: "jsstring option \<Rightarrow> bool" where
  "truthy v = (case v of None \<Rightarrow> False | Some s \<Rightarrow> s \<noteq> [])"


section \<open>The state of \<^verbatim>\<open>HudInterface\<close>\<close>

record battery_status =
  level :: real
  charging :: bool

record weather_reading =
  temp :: jsstring
  condition :: jsstring
  location :: jsstring

text \<open>
  An entry of \<^verbatim>\<open>groundingUrls\<close>. The state's declared type makes both fields strings,
  but the entries are copied from the engine's \<^verbatim>\<open>web\<close> objects, whose fields are all
  optional; \<open>None\<close> is \<^verbatim>\<open>undefined\<close>.
\<close>

record grounding_url =
  title :: "jsstring option"
  uri :: "jsstring option"

text \<open>The \<^verbatim>\<open>useState\<close> slots, in the order of their declaration.\<close>

record hud =
  time :: nat
  battery :: battery_status
  weather :: weather_reading
  isPlaying :: bool
  currentTrackIndex :: nat
  trackProgress :: nat
  searchQuery :: jsstring
  searchResult :: "jsstring option"
  groundingUrls :: "grounding_url list"
  isSearching :: bool
  newsHeadlines :: "jsstring list"

text \<open>The initial values of the slots; \<open>now\<close> is the \<^verbatim>\<open>new Date()\<close> of the first render.\<close>

definition initial :: "nat \<Rightarrow> hud" where
  "initial now =
     \<lparr> time = now,
       battery = \<lparr> level = 100, charging = True \<rparr>,
       weather = \<lparr> temp = js ''--'', condition = js ''SCANNING...'',
                   location = js ''UNKNOWN SECTOR'' \<rparr>,
       isPlaying = False,
       currentTrackIndex = 0,
       trackProgress = 0,
       searchQuery = [],
       searchResult = None,
       groundingUrls = [],
       isSearching = False,
       newsHeadlines = [] \<rparr>"


section \<open>The external collaborators\<close>

subsection \<open>The Answer Engine\<close>

text \<open>
  What \<^verbatim>\<open>ai.models.generateContent\<close> is asked. The wording of the prompts is not
  modelled: a request is the kind of prompt with the data embedded in it, and whether
  the \<^verbatim>\<open>googleSearch\<close> tool is configured.
\<close>

record coords =
  latitude :: real
  longitude :: real

datatype prompt = WeatherPrompt coords | NewsPrompt | SearchPrompt jsstring

record request =
  contents :: prompt
  googleSearch :: bool

text \<open>
  A grounding chunk carries a \<^verbatim>\<open>web\<close> object or not (a retrieved-context chunk has
  none). The \<^verbatim>\<open>web\<close> object has the fields of a \<open>grounding_url\<close> and a domain, all optional.
\<close>

record grounding_chunk_web = grounding_url +
  domain :: "jsstring option"

datatype grounding_chunk = Chunk (web: "grounding_chunk_web option")

text \<open>
  The part of a response that the component reads: \<^verbatim>\<open>response.text\<close>, a string or
  \<^verbatim>\<open>undefined\<close>, and
  \<^verbatim>\<open>response.candidates?.[0]?.groundingMetadata?.groundingChunks\<close>, which is
  \<^verbatim>\<open>undefined\<close> as soon as one link of the chain is missing.
\<close>

datatype response =
  Response (response_text: "jsstring option") (groundingChunks: "grounding_chunk list option")

text \<open>
  A call either fulfils with a response or throws inside the \<^verbatim>\<open>try\<close> block
  (a rejected promise, or the client constructor failing): the spec's \<open>ServiceError\<close>.
\<close>

datatype engine_outcome = ServiceError | Fulfilled response

subsection \<open>Geolocation\<close>

text \<open>
  \<^verbatim>\<open>navigator.geolocation\<close> may be missing; otherwise
  \<^verbatim>\<open>getCurrentPosition\<close> calls the success callback with a position or the error
  callback with one of the three position errors, which the handler does not tell apart.
\<close>

datatype position_error = PERMISSION_DENIED | POSITION_UNAVAILABLE | TIMEOUT

datatype geo_outcome = NoGeolocation | PositionError position_error | Position coords


section \<open>Weather Resolver: \<^verbatim>\<open>fetchWeather\<close>\<close>

text \<open>
  One run of \<^verbatim>\<open>fetchWeather\<close>, given what geolocation answers and what the engine
  answers if it is called. The run makes at most one \<^verbatim>\<open>setWeather\<close> call, at its end;
  \<open>st\<close> is the state that call is applied to (the degraded branch uses the functional
  form \<^verbatim>\<open>setWeather(prev => ...)\<close>, which reads the slot at that moment). The second
  component lists the engine calls the run attempted.
\<close>

definition weatherRequest :: "coords \<Rightarrow> request" where
  "weatherRequest pos = \<lparr> contents = WeatherPrompt pos, googleSearch = True \<rparr>"

definition fetchWeather :: "geo_outcome \<Rightarrow> engine_outcome \<Rightarrow> hud \<Rightarrow> hud \<times> request list" where
  "fetchWeather geo engine st =
     (case geo of
        NoGeolocation \<Rightarrow> (st, [])
      | PositionError err \<Rightarrow>
          (st\<lparr> weather := \<lparr> temp = js ''--'', condition = js ''NO SIGNAL'',
                             location = js ''GPS ERROR'' \<rparr> \<rparr>, [])
      | Position pos \<Rightarrow>
          (case engine of
             ServiceError \<Rightarrow>
               (st\<lparr> weather := \<lparr> temp = js ''ERR'', condition = js ''OFFLINE'',
                                  location = js ''UNKNOWN'' \<rparr> \<rparr>, [weatherRequest pos])
           | Fulfilled response \<Rightarrow>
               (if truthy (response_text response) then
                  (let parts = map trim (split_on BAR (the (response_text response))) in
                   if length parts \<ge> 3 then
                     (st\<lparr> weather := \<lparr> temp = parts ! 1, condition = parts ! 2,
                                        location = parts ! 0 \<rparr> \<rparr>, [weatherRequest pos])
                   else
                     (st\<lparr> weather := (weather st)\<lparr> condition := js ''DATA RECEIVED'',
                                                    location := js ''LOCAL'' \<rparr> \<rparr>,
                      [weatherRequest pos]))
                else (st, [weatherRequest pos]))))"


section \<open>News Feed Loader: \<^verbatim>\<open>fetchNews\<close>\<close>

definition newsRequest :: request where
  "newsRequest = \<lparr> contents = NewsPrompt, googleSearch = False \<rparr>"

definition newsFallback :: "jsstring list" where
  "newsFallback =
     [js ''NETWORK ERROR: UNABLE TO SYNC WITH WORLD DATA.'',
      js ''LOCAL CACHE LOADED.'',
      js ''SYSTEM DIAGNOSTICS RECOMMENDED.'']"

text \<open>
  One run of \<^verbatim>\<open>fetchNews\<close>, given the engine's answer; \<^verbatim>\<open>slice(0, 3)\<close> is
  \<open>take 3\<close>. The second component lists the engine calls the run attempted.
\<close>

definition fetchNews :: "engine_outcome \<Rightarrow> hud \<Rightarrow> hud \<times> request list" where
  "fetchNews engine st =
     (case engine of
        ServiceError \<Rightarrow> (st\<lparr> newsHeadlines := newsFallback \<rparr>, [newsRequest])
      | Fulfilled response \<Rightarrow>
          (if truthy (response_text response) then
             (st\<lparr> newsHeadlines :=
                    take 3 (filter (\<lambda>line. trim line \<noteq> [])
                              (split_on NEWLINE (the (response_text response)))) \<rparr>,
              [newsRequest])
           else (st, [newsRequest])))"



section \<open>Search Orchestrator: \<^verbatim>\<open>handleSearch\<close>\<close>

definition searchRequest :: "jsstring \<Rightarrow> request" where
  "searchRequest q = \<lparr> contents = SearchPrompt q, googleSearch = True \<rparr>"

text \<open>
  \<^verbatim>\<open>handleSearch\<close> is an async function: it runs up to the \<^verbatim>\<open>await\<close> when the key
  goes down, and the rest runs when the engine's promise settles, with any other event
  in between. The model has one function for each half.

  The first half: on Enter with a query that is not blank, mark the session pending,
  clear the result and the links, and issue the request with the query as it stands.
\<close>

definition handleSearch :: "jsstring \<Rightarrow> hud \<Rightarrow> hud \<times> request list" where
  "handleSearch key st =
     (if key = js ''Enter'' \<and> trim (searchQuery st) \<noteq> [] then
        (st\<lparr> isSearching := True, searchResult := None, groundingUrls := [] \<rparr>,
         [searchRequest (searchQuery st)])
      else (st, []))"

text \<open>
  \<^verbatim>\<open>chunks.map(c => c.web).filter(w => w).map(w => ({ title: w.title, uri: w.uri }))\<close>:
  an object is truthy, \<^verbatim>\<open>undefined\<close> is not.
\<close>

definition extractUrls :: "grounding_chunk list \<Rightarrow> grounding_url list" where
  "extractUrls chunks =
     map (\<lambda>w. \<lparr> title = title (the w), uri = uri (the w) \<rparr>)
       (filter (\<lambda>w. w \<noteq> None) (map web chunks))"

text \<open>
  The second half, run when the promise of a request settles: the body of the
  \<^verbatim>\<open>try\<close> after the \<^verbatim>\<open>await\<close>, or the \<^verbatim>\<open>catch\<close>, and then the
  \<^verbatim>\<open>finally\<close>. It reads nothing that says which request settled.
\<close>

definition handleSearch_settled :: "engine_outcome \<Rightarrow> hud \<Rightarrow> hud" where
  "handleSearch_settled engine st =
     (case engine of
        Fulfilled response \<Rightarrow>
          (let st1 = st\<lparr> searchResult := response_text response \<rparr>;
               st2 = (case groundingChunks response of
                        None \<Rightarrow> st1
                      | Some chunks \<Rightarrow> st1\<lparr> groundingUrls := extractUrls chunks \<rparr>)
           in st2\<lparr> isSearching := False \<rparr>)
      | ServiceError \<Rightarrow>
          st\<lparr> searchResult := Some (js ''CONNECTION INTERRUPTED. TARGET NOT FOUND.''),
              isSearching := False \<rparr>)"

text \<open>The HOME button: \<^verbatim>\<open>setSearchResult(null)\<close>.\<close>

definition home :: "hud \<Rightarrow> hud" where
  "home st = st\<lparr> searchResult := None \<rparr>"

subsection \<open>The event loop around the search box\<close>

text \<open>
  The events that touch the search session, one at a time as the event loop delivers
  them: typing (\<^verbatim>\<open>onChange\<close>), a key going down in the input, the promise of an
  in-flight request settling, and the HOME button. Next to the component's state the
  loop keeps the requests in flight, oldest first; \<open>Settle i outcome\<close> settles the
  \<open>i\<close>-th of them, in whatever order the engine answers.
\<close>

datatype event = Change jsstring | KeyDown jsstring | Settle nat engine_outcome | Home

fun step :: "event \<Rightarrow> hud \<times> request list \<Rightarrow> hud \<times> request list" where
  "step (Change v) (st, inflight) = (st\<lparr> searchQuery := v \<rparr>, inflight)"
| "step (KeyDown key) (st, inflight) =
     (case handleSearch key st of (st', issued) \<Rightarrow> (st', inflight @ issued))"
| "step (Settle i outcome) (st, inflight) =
     (if i < length inflight
      then (handleSearch_settled outcome st, take i inflight @ drop (Suc i) inflight)
      else (st, inflight))"
| "step Home (st, inflight) = (home st, inflight)"

definition run :: "event list \<Rightarrow> hud \<times> request list \<Rightarrow> hud \<times> request list" where
  "run evs s = fold step evs s"


section \<open>Display Mode Selector: the feed pane\<close>

text \<open>
  What the feed pane renders, as the nested conditional of the JSX decides it. The
  search view shows the text and, when the list is not empty, the source links.
\<close>

datatype view =
    Querying
  | SearchResults jsstring "grounding_url list"
  | InitializingFeed
  | Headlines "jsstring list"

definition feedPane :: "hud \<Rightarrow> view" where
  "feedPane st =
     (if isSearching st then Querying
      else if truthy (searchResult st) then
        SearchResults (the (searchResult st)) (groundingUrls st)
      else if length (newsHeadlines st) = 0 then InitializingFeed
      else Headlines (newsHeadlines st))"



section \<open>Playback Simulator\<close>

definition PLAYLIST :: "(jsstring \<times> jsstring \<times> jsstring) list" where
  "PLAYLIST =
     [(js ''Night City Dreams'', js ''Artemis Prime'', js ''03:45''),
      (js ''Neon Rain'', js ''Synth Walker'', js ''04:20''),
      (js ''Cyber Heart'', js ''Data Ghost'', js ''02:55''),
      (js ''Mainframe Breach'', js ''Null Pointer'', js ''03:10'')]"

definition togglePlay :: "hud \<Rightarrow> hud" where
  "togglePlay st = st\<lparr> isPlaying := \<not> isPlaying st \<rparr>"

definition nextTrack :: "hud \<Rightarrow> hud" where
  "nextTrack st =
     st\<lparr> currentTrackIndex := (currentTrackIndex st + 1) mod length PLAYLIST,
         trackProgress := 0,
         isPlaying := True \<rparr>"


section \<open>Timers, listeners and the effects that own them\<close>

text \<open>
  The life of one instance of the component, with the resources its effects take from
  the browser. A callback handed to the browser is one of three closures: the clock's
  \<^verbatim>\<open>() => setTime(new Date())\<close>, the progress timer's
  \<^verbatim>\<open>() => setTrackProgress(prev => (prev + 1) % 100)\<close>, and \<^verbatim>\<open>updateBattery\<close>.
\<close>

datatype callback = SetTime | AdvanceProgress | UpdateBattery

datatype battery_event = levelchange | chargingchange

datatype phase = Fresh | Mounted | Unmounted

text \<open>
  The browser's side: the clock, the battery manager's \<^verbatim>\<open>level\<close> (between 0 and 1)
  and \<^verbatim>\<open>charging\<close>, the live \<^verbatim>\<open>setInterval\<close> timers under their handles, the number
  of \<^verbatim>\<open>getBattery()\<close> promises not yet fulfilled, and the listeners registered on the
  battery manager. React's side: the phase of the instance, its state, and for each
  effect that returned a cleanup function the variable that function captured
  (\<open>clockTimer\<close> is \<^verbatim>\<open>timer\<close>; \<open>mediaInterval\<close> is \<^verbatim>\<open>interval\<close>, which is
  \<^verbatim>\<open>undefined\<close> when the effect ran while paused; the outer \<open>None\<close> means that no
  cleanup is pending). \<open>invoked\<close> logs every callback the browser has called.
\<close>

record page =
  component :: hud
  phase :: phase
  clock :: nat
  bat :: battery_status
  intervals :: "(nat \<times> callback) list"
  nextHandle :: nat
  batteryPromises :: nat
  listeners :: "(battery_event \<times> callback) list"
  clockTimer :: "nat option"
  mediaInterval :: "nat option option"
  invoked :: "callback list"

definition start :: "nat \<Rightarrow> battery_status \<Rightarrow> page" where
  "start now reading =
     \<lparr> component = initial now, phase = Fresh, clock = now, bat = reading,
       intervals = [], nextHandle = 1, batteryPromises = 0, listeners = [],
       clockTimer = None, mediaInterval = None, invoked = [] \<rparr>"

subsection \<open>The browser's primitives\<close>

definition setInterval :: "callback \<Rightarrow> page \<Rightarrow> nat \<times> page" where
  "setInterval cb pg =
     (nextHandle pg,
      pg\<lparr> intervals := intervals pg @ [(nextHandle pg, cb)],
          nextHandle := Suc (nextHandle pg) \<rparr>)"

text \<open>\<^verbatim>\<open>clearInterval(undefined)\<close> does nothing.\<close>

definition clearInterval :: "nat option \<Rightarrow> page \<Rightarrow> page" where
  "clearInterval handle pg =
     (case handle of
        None \<Rightarrow> pg
      | Some h \<Rightarrow> pg\<lparr> intervals := filter (\<lambda>t. fst t \<noteq> h) (intervals pg) \<rparr>)"

definition addEventListener :: "battery_event \<Rightarrow> callback \<Rightarrow> page \<Rightarrow> page" where
  "addEventListener ev cb pg = pg\<lparr> listeners := listeners pg @ [(ev, cb)] \<rparr>"

subsection \<open>The effects\<close>

text \<open>The clock effect and the cleanup function it returns.\<close>

definition clockEffect :: "page \<Rightarrow> page" where
  "clockEffect pg =
     (case setInterval SetTime pg of (timer, pg') \<Rightarrow> pg'\<lparr> clockTimer := Some timer \<rparr>)"

definition clockEffect_cleanup :: "page \<Rightarrow> page" where
  "clockEffect_cleanup pg =
     (case clockTimer pg of
        None \<Rightarrow> pg
      | Some timer \<Rightarrow> (clearInterval (Some timer) pg)\<lparr> clockTimer := None \<rparr>)"

text \<open>The media progress effect, which depends on \<^verbatim>\<open>isPlaying\<close>, and its cleanup.\<close>

definition mediaEffect :: "page \<Rightarrow> page" where
  "mediaEffect pg =
     (if isPlaying (component pg) then
        (case setInterval AdvanceProgress pg of
           (interval, pg') \<Rightarrow> pg'\<lparr> mediaInterval := Some (Some interval) \<rparr>)
      else pg\<lparr> mediaInterval := Some None \<rparr>)"

definition mediaEffect_cleanup :: "page \<Rightarrow> page" where
  "mediaEffect_cleanup pg =
     (case mediaInterval pg of
        None \<Rightarrow> pg
      | Some interval \<Rightarrow> (clearInterval interval pg)\<lparr> mediaInterval := None \<rparr>)"

text \<open>
  A state update and the render that follows it. An update of an instance that is not
  mounted is dropped. After a render React runs again the effects whose dependencies
  changed, cleanup first: here the media effect, when \<^verbatim>\<open>isPlaying\<close> changed.
\<close>

definition setState :: "(hud \<Rightarrow> hud) \<Rightarrow> page \<Rightarrow> page" where
  "setState f pg =
     (if phase pg = Mounted then
        (let before = component pg;
             pg' = pg\<lparr> component := f before \<rparr>
         in if isPlaying (f before) \<noteq> isPlaying before
            then mediaEffect (mediaEffect_cleanup pg')
            else pg')
      else pg)"

text \<open>The browser calls a callback.\<close>

definition call :: "callback \<Rightarrow> page \<Rightarrow> page" where
  "call cb pg =
     (let pg' = pg\<lparr> invoked := invoked pg @ [cb] \<rparr> in
      case cb of
        SetTime \<Rightarrow> setState (\<lambda>st. st\<lparr> time := clock pg' \<rparr>) pg'
      | AdvanceProgress \<Rightarrow>
          setState (\<lambda>st. st\<lparr> trackProgress := (trackProgress st + 1) mod 100 \<rparr>) pg'
      | UpdateBattery \<Rightarrow>
          setState (\<lambda>st. st\<lparr> battery := \<lparr> level = level (bat pg') * 100,
                                           charging = charging (bat pg') \<rparr> \<rparr>) pg')"

text \<open>
  The battery effect: when the browser has \<^verbatim>\<open>getBattery\<close> it asks for the manager,
  and returns nothing, so React has no cleanup to run for it. \<open>batteryEffect_then\<close> is
  the \<^verbatim>\<open>then\<close> callback, run when the promise is fulfilled.
\<close>

definition batteryEffect :: "bool \<Rightarrow> page \<Rightarrow> page" where
  "batteryEffect hasGetBattery pg =
     (if hasGetBattery then pg\<lparr> batteryPromises := Suc (batteryPromises pg) \<rparr> else pg)"

definition batteryEffect_then :: "page \<Rightarrow> page" where
  "batteryEffect_then pg =
     addEventListener chargingchange UpdateBattery
       (addEventListener levelchange UpdateBattery
          (call UpdateBattery pg))"

subsection \<open>The events of a lifetime\<close>

text \<open>
  \<open>Mount\<close> runs the effects in the order of their declaration (the fourth one, which
  starts \<^verbatim>\<open>fetchNews\<close> and \<^verbatim>\<open>fetchWeather\<close>, takes no timer and no listener and is
  left to the sections above); its argument says whether the browser has
  \<^verbatim>\<open>getBattery\<close>. \<open>Unmount\<close> runs the cleanup functions that the effects returned.
  \<open>Elapse\<close> is one second passing: each live timer fires once. \<open>BatteryChange\<close> is
  the battery manager taking a new reading and dispatching an event to the listeners
  registered for it.
\<close>

datatype page_event =
    Mount bool
  | BatteryResolved
  | Elapse
  | BatteryChange battery_event battery_status
  | ClickPlay
  | ClickNext
  | Unmount

fun page_step :: "page_event \<Rightarrow> page \<Rightarrow> page" where
  "page_step (Mount hasGetBattery) pg =
     (if phase pg = Fresh
      then batteryEffect hasGetBattery (mediaEffect (clockEffect (pg\<lparr> phase := Mounted \<rparr>)))
      else pg)"
| "page_step BatteryResolved pg =
     (if batteryPromises pg > 0
      then batteryEffect_then (pg\<lparr> batteryPromises := batteryPromises pg - 1 \<rparr>)
      else pg)"
| "page_step Elapse pg =
     (let pg' = pg\<lparr> clock := clock pg + 1000 \<rparr>
      in fold (\<lambda>t. call (snd t)) (intervals pg') pg')"
| "page_step (BatteryChange ev reading) pg =
     (let pg' = pg\<lparr> bat := reading \<rparr>
      in fold (\<lambda>l. call (snd l)) (filter (\<lambda>l. fst l = ev) (listeners pg')) pg')"
| "page_step ClickPlay pg = (if phase pg = Mounted then setState togglePlay pg else pg)"
| "page_step ClickNext pg = (if phase pg = Mounted then setState nextTrack pg else pg)"
| "page_step Unmount pg =
     (if phase pg = Mounted
      then (mediaEffect_cleanup (clockEffect_cleanup pg))\<lparr> phase := Unmounted \<rparr>
      else pg)"

definition page_run :: "page_event list \<Rightarrow> page \<Rightarrow> page" where
  "page_run evs pg = fold page_step evs pg"


subsection \<open>What the cleanup functions are meant to keep true\<close>

text \<open>
  The timers of a tidy page are exactly the ones a pending cleanup function will clear:
  outside the mounted phase there is none; while mounted there is the clock's timer
  and, only while playing, one progress timer.
\<close>

fun tidy_timers ::
  "phase \<Rightarrow> bool \<Rightarrow> nat option \<Rightarrow> nat option option \<Rightarrow> nat \<Rightarrow> (nat \<times> callback) list \<Rightarrow> bool"
where
  "tidy_timers Mounted True (Some c) (Some (Some m)) next ts =
     (c < next \<and> m < next \<and> m \<noteq> c \<and> ts = [(c, SetTime), (m, AdvanceProgress)])"
| "tidy_timers Mounted False (Some c) (Some None) next ts =
     (c < next \<and> ts = [(c, SetTime)])"
| "tidy_timers Mounted playing timer interval next ts = False"
| "tidy_timers ph playing timer interval next ts =
     (timer = None \<and> interval = None \<and> ts = [])"

definition tidy :: "page \<Rightarrow> bool" where
  "tidy pg =
     tidy_timers (phase pg) (isPlaying (component pg)) (clockTimer pg) (mediaInterval pg)
       (nextHandle pg) (intervals pg)"

section \<open>The string model behaves like \<^verbatim>\<open>split\<close> and \<^verbatim>\<open>trim\<close>\<close>

text \<open>
  \<open>split_on\<close> never returns the empty list, gives one piece more than there are
  separators, loses nothing (joining the pieces gives the string back) and leaves no
  separator inside a piece.
\<close>

lemma split_on_not_Nil: "split_on sep xs \<noteq> []"
  by (induction xs) (auto split: list.splits)

lemma length_split_on: "length (split_on sep xs) = Suc (length (filter (\<lambda>c. c = sep) xs))"
  by (induction xs) (auto split: list.splits simp: split_on_not_Nil)

lemma join_with_Cons: "ps \<noteq> [] \<Longrightarrow> join_with sep (p # ps) = p @ sep # join_with sep ps"
  by (cases ps) auto

lemma join_split_on: "join_with sep (split_on sep xs) = xs"
proof (induction xs)
  case Nil
  show ?case by simp
next
  case (Cons c cs)
  show ?case
  proof (cases "c = sep")
    case True
    with Cons show ?thesis by (simp add: join_with_Cons split_on_not_Nil)
  next
    case False
    obtain p ps where sp: "split_on sep cs = p # ps"
      using split_on_not_Nil [of sep cs] by (cases "split_on sep cs") auto
    from Cons sp have "join_with sep (p # ps) = cs" by simp
    then have "join_with sep ((c # p) # ps) = c # cs" by (cases ps) auto
    with False sp show ?thesis by simp
  qed
qed

lemma sep_notin_split_on: "p \<in> set (split_on sep xs) \<Longrightarrow> sep \<notin> set p"
  by (induction xs arbitrary: p) (auto split: if_splits list.splits)

text \<open>
  \<open>trim\<close> removes whitespace from both ends and nothing else: what it returns neither
  starts nor ends with whitespace, and trimming twice changes nothing.
\<close>

lemma trim_Nil: "trim [] = []" by (simp add: trim_def)

lemma trim_decomp:
  "s = takeWhile is_ws s @ trim s @ rev (takeWhile is_ws (rev (dropWhile is_ws s)))"
proof -
  let ?d = "dropWhile is_ws s"
  have "rev (takeWhile is_ws (rev ?d) @ dropWhile is_ws (rev ?d)) = ?d"
    by (simp only: takeWhile_dropWhile_id rev_rev_ident)
  then have "trim s @ rev (takeWhile is_ws (rev ?d)) = ?d"
    by (simp only: rev_append trim_def)
  then have "takeWhile is_ws s @ trim s @ rev (takeWhile is_ws (rev ?d)) = takeWhile is_ws s @ ?d"
    by simp
  then show ?thesis by (simp only: takeWhile_dropWhile_id)
qed

lemma trim_edges:
  assumes "trim s \<noteq> []"
  shows "\<not> is_ws (hd (trim s)) \<and> \<not> is_ws (last (trim s))"
proof -
  let ?d = "dropWhile is_ws s"
  let ?e = "dropWhile is_ws (rev ?d)"
  from assms have e: "?e \<noteq> []" by (simp add: trim_def)
  then have "\<not> is_ws (hd ?e)" by (rule hd_dropWhile)
  with e have l: "\<not> is_ws (last (trim s))" by (simp add: trim_def last_rev)
  have d: "?d = trim s @ rev (takeWhile is_ws (rev ?d))"
    using trim_decomp [of s] by (metis same_append_eq takeWhile_dropWhile_id)
  from assms d have "hd ?d = hd (trim s)" by (metis hd_append2)
  moreover from assms d have "?d \<noteq> []" by (metis append_is_Nil_conv)
  then have "\<not> is_ws (hd ?d)" by (rule hd_dropWhile)
  ultimately show ?thesis using l by simp
qed

lemma trim_idem: "trim (trim s) = trim s"
proof (cases "trim s = []")
  case True
  then show ?thesis by (simp add: trim_Nil)
next
  case False
  from trim_edges [OF False] have h: "\<not> is_ws (hd (trim s))" and l: "\<not> is_ws (last (trim s))"
    by simp_all
  from False h have "dropWhile is_ws (trim s) = trim s" by (cases "trim s") auto
  moreover from False l have "dropWhile is_ws (rev (trim s)) = rev (trim s)"
    by (cases "rev (trim s)") (auto simp: last_rev [symmetric] hd_rev)
  ultimately show ?thesis by (simp add: trim_def [of "trim s"])
qed


section \<open>Weather Resolver\<close>

text \<open>
  C4. When geolocation gives a position and the engine's text splits on the bar into
  three pieces or more, the reading is made of the first three pieces, trimmed: the
  first is the location, the second the temperature, the third the condition. Further
  pieces are ignored, no other slot changes, and the engine was asked once. The
  instance below is the prompt's own example, \<^verbatim>\<open>Tokyo | 15\<degree>C | Rainy\<close>.
\<close>

theorem fetchWeather_resolved:
  assumes "response_text r = Some answer" and "3 \<le> length (split_on BAR answer)"
  shows "fetchWeather (Position pos) (Fulfilled r) st =
    (st\<lparr> weather := \<lparr> temp = trim (split_on BAR answer ! 1),
                       condition = trim (split_on BAR answer ! 2),
                       location = trim (split_on BAR answer ! 0) \<rparr> \<rparr>, [weatherRequest pos])"
proof -
  from assms(2) have "answer \<noteq> []" by (cases answer) auto
  with assms show ?thesis
    by (simp add: fetchWeather_def truthy_def Let_def split_on_not_Nil)
qed

theorem fetchWeather_resolved_witness:
  "response_text (Response (Some (js ''Tokyo | 15'' @ [0xB0] @ js ''C | Rainy'')) None)
     = Some (js ''Tokyo | 15'' @ [0xB0] @ js ''C | Rainy'')
   \<and> 3 \<le> length (split_on BAR (js ''Tokyo | 15'' @ [0xB0] @ js ''C | Rainy''))
   \<and> fetchWeather (Position \<lparr> latitude = 35.68, longitude = 139.69 \<rparr>)
        (Fulfilled (Response (Some (js ''Tokyo | 15'' @ [0xB0] @ js ''C | Rainy'')) None))
        (initial 0) =
      ((initial 0)\<lparr> weather := \<lparr> temp = js ''15'' @ [0xB0] @ js ''C'',
                                  condition = js ''Rainy'',
                                  location = js ''Tokyo'' \<rparr> \<rparr>,
       [weatherRequest \<lparr> latitude = 35.68, longitude = 139.69 \<rparr>])"
  using fetchWeather_resolved [of "Response (Some (js ''Tokyo | 15'' @ [0xB0] @ js ''C | Rainy'')) None"
      "js ''Tokyo | 15'' @ [0xB0] @ js ''C | Rainy''"
      "\<lparr> latitude = 35.68, longitude = 139.69 \<rparr>" "initial 0"]
  by (simp add: js_def trim_def is_ws_def)

text \<open>
  C3, as stated, fails for the empty string: it splits into one piece, fewer than three,
  but the guard \<^verbatim>\<open>if (text)\<close> skips the whole block and the reading keeps its old
  condition and location.
\<close>

theorem fetchWeather_empty_text_counterexample:
  "length (map trim (split_on BAR [])) < 3
   \<and> weather (fst (fetchWeather (Position \<lparr> latitude = 0, longitude = 0 \<rparr>)
                      (Fulfilled (Response (Some []) None)) (initial 0)))
       = \<lparr> temp = js ''--'', condition = js ''SCANNING...'', location = js ''UNKNOWN SECTOR'' \<rparr>
   \<and> js ''SCANNING...'' \<noteq> js ''DATA RECEIVED''
   \<and> js ''UNKNOWN SECTOR'' \<noteq> js ''LOCAL''"
  by (simp add: fetchWeather_def truthy_def initial_def js_def)

text \<open>
  C3, amended. When geolocation gives a position and the engine's text is not empty and
  splits on the bar into fewer than three pieces, the condition becomes
  \<^verbatim>\<open>DATA RECEIVED\<close>, the location \<^verbatim>\<open>LOCAL\<close>, and the temperature is the one the slot
  holds when the update is applied; no other slot changes.
\<close>

theorem fetchWeather_degraded:
  assumes "response_text r = Some answer" and "answer \<noteq> []"
    and "length (split_on BAR answer) < 3"
  shows "fetchWeather (Position pos) (Fulfilled r) st =
    (st\<lparr> weather := \<lparr> temp = temp (weather st), condition = js ''DATA RECEIVED'',
                       location = js ''LOCAL'' \<rparr> \<rparr>, [weatherRequest pos])"
  using assms by (simp add: fetchWeather_def truthy_def Let_def)

theorem fetchWeather_degraded_witness:
  "response_text (Response (Some (js ''sunny today'')) None) = Some (js ''sunny today'')
   \<and> js ''sunny today'' \<noteq> []
   \<and> length (split_on BAR (js ''sunny today'')) < 3
   \<and> fetchWeather (Position \<lparr> latitude = 0, longitude = 0 \<rparr>)
        (Fulfilled (Response (Some (js ''sunny today'')) None))
        ((initial 0)\<lparr> weather := \<lparr> temp = js ''21C'', condition = js ''Clear'',
                                    location = js ''Oslo'' \<rparr> \<rparr>) =
      ((initial 0)\<lparr> weather := \<lparr> temp = js ''21C'', condition = js ''DATA RECEIVED'',
                                  location = js ''LOCAL'' \<rparr> \<rparr>,
       [weatherRequest \<lparr> latitude = 0, longitude = 0 \<rparr>])"
  using fetchWeather_degraded [of "Response (Some (js ''sunny today'')) None" "js ''sunny today''"
      "\<lparr> latitude = 0, longitude = 0 \<rparr>"
      "(initial 0)\<lparr> weather := \<lparr> temp = js ''21C'', condition = js ''Clear'',
                                    location = js ''Oslo'' \<rparr> \<rparr>"]
  by (simp add: js_def)

text \<open>
  C6, as stated, fails when the capability itself is unavailable. Without
  \<^verbatim>\<open>navigator.geolocation\<close> the guard at the head of the function returns at
  once: the reading stays as it was, here the initial scanning reading, and does not
  become the GPS error tuple.
\<close>

theorem fetchWeather_no_geolocation_counterexample:
  "fetchWeather NoGeolocation ServiceError (initial 0) = (initial 0, [])
   \<and> weather (fst (fetchWeather NoGeolocation ServiceError (initial 0)))
       = \<lparr> temp = js ''--'', condition = js ''SCANNING...'', location = js ''UNKNOWN SECTOR'' \<rparr>
   \<and> js ''SCANNING...'' \<noteq> js ''NO SIGNAL''
   \<and> js ''UNKNOWN SECTOR'' \<noteq> js ''GPS ERROR''"
  by (simp add: fetchWeather_def initial_def js_def)

text \<open>
  C6, amended. When the position request fails, with whichever position error, the
  reading becomes \<^verbatim>\<open>{"--", "NO SIGNAL", "GPS ERROR"}\<close> and no engine request is made,
  whatever the engine would have answered; when the engine call fails, the reading
  becomes \<^verbatim>\<open>{"ERR", "OFFLINE", "UNKNOWN"}\<close>; when the browser has no geolocation at
  all, nothing changes and no engine request is made. In each case no other slot changes.
\<close>

theorem fetchWeather_failures:
  "fetchWeather (PositionError err) engine st =
     (st\<lparr> weather := \<lparr> temp = js ''--'', condition = js ''NO SIGNAL'',
                        location = js ''GPS ERROR'' \<rparr> \<rparr>, [])
   \<and> fetchWeather (Position pos) ServiceError st =
     (st\<lparr> weather := \<lparr> temp = js ''ERR'', condition = js ''OFFLINE'',
                        location = js ''UNKNOWN'' \<rparr> \<rparr>, [weatherRequest pos])
   \<and> fetchWeather NoGeolocation engine st = (st, [])"
  by (simp add: fetchWeather_def)

theorem fetchWeather_failures_witness:
  "weather (fst (fetchWeather (PositionError PERMISSION_DENIED) ServiceError (initial 0)))
     = \<lparr> temp = js ''--'', condition = js ''NO SIGNAL'', location = js ''GPS ERROR'' \<rparr>
   \<and> snd (fetchWeather (PositionError POSITION_UNAVAILABLE)
            (Fulfilled (Response (Some (js ''a|b|c'')) None)) (initial 0)) = []
   \<and> weather (fst (fetchWeather (Position \<lparr> latitude = 0, longitude = 0 \<rparr>) ServiceError (initial 0)))
     = \<lparr> temp = js ''ERR'', condition = js ''OFFLINE'', location = js ''UNKNOWN'' \<rparr>
   \<and> fetchWeather NoGeolocation (Fulfilled (Response (Some (js ''a|b|c'')) None)) (initial 0)
     = (initial 0, [])"
  using fetchWeather_failures [of PERMISSION_DENIED ServiceError "initial 0"
      "\<lparr> latitude = 0, longitude = 0 \<rparr>"]
    fetchWeather_failures [of POSITION_UNAVAILABLE
      "Fulfilled (Response (Some (js ''a|b|c'')) None)" "initial 0" "\<lparr> latitude = 0, longitude = 0 \<rparr>"]
  by simp


section \<open>News Feed Loader\<close>

text \<open>
  For a text that is not empty the headlines are at most three, none is blank, and they
  are lines of the text in the order of the text.
\<close>

lemma headlines_shape:
  assumes "response_text r = Some answer" and "answer \<noteq> []"
  shows "length (newsHeadlines (fst (fetchNews (Fulfilled r) st))) \<le> 3"
    and "\<forall>h \<in> set (newsHeadlines (fst (fetchNews (Fulfilled r) st))). trim h \<noteq> []"
    and "subseq (newsHeadlines (fst (fetchNews (Fulfilled r) st))) (split_on NEWLINE answer)"
proof -
  let ?lines = "filter (\<lambda>line. trim line \<noteq> []) (split_on NEWLINE answer)"
  from assms have eq: "newsHeadlines (fst (fetchNews (Fulfilled r) st)) = take 3 ?lines"
    by (simp add: fetchNews_def truthy_def)
  show "length (newsHeadlines (fst (fetchNews (Fulfilled r) st))) \<le> 3"
    by (simp add: eq)
  show "\<forall>h \<in> set (newsHeadlines (fst (fetchNews (Fulfilled r) st))). trim h \<noteq> []"
    unfolding eq using set_take_subset [of 3 ?lines] by auto
  have "subseq (take 3 ?lines) ?lines"
    by (metis append_take_drop_id list_emb_append_mono list_emb_Nil subseq_order.order_refl append_Nil2 self_append_conv)
  moreover have "subseq ?lines (split_on NEWLINE answer)" by simp
  ultimately show "subseq (newsHeadlines (fst (fetchNews (Fulfilled r) st))) (split_on NEWLINE answer)"
    unfolding eq by (rule subseq_order.order_trans)
qed

text \<open>
  C7. When the engine answers with a text, the headlines are the lines of the text
  (split at newlines) that are not blank after trimming, in their order, cut to the
  first three, and no other slot changes. This holds for every text that is not empty,
  and for the empty text too when no headlines were loaded before, as is the case when
  the loader runs at startup. The instance below has five lines, the second blank.
\<close>

theorem fetchNews_headlines:
  assumes "response_text r = Some answer" and "answer \<noteq> [] \<or> newsHeadlines st = []"
  shows "fetchNews (Fulfilled r) st =
    (st\<lparr> newsHeadlines :=
           take 3 (filter (\<lambda>line. trim line \<noteq> []) (split_on NEWLINE answer)) \<rparr>,
     [newsRequest])"
proof (cases "answer = []")
  case True
  with assms(2) have "newsHeadlines st = []" by simp
  then have "st\<lparr> newsHeadlines := [] \<rparr> = st" by simp
  with True assms(1) show ?thesis
    by (simp add: fetchNews_def truthy_def trim_def)
next
  case False
  with assms(1) show ?thesis by (simp add: fetchNews_def truthy_def)
qed

theorem fetchNews_headlines_witness:
  "response_text (Response (Some (js ''ONE'' @ [NEWLINE] @ js ''  '' @ [NEWLINE] @ js ''TWO''
        @ [NEWLINE] @ js ''THREE'' @ [NEWLINE] @ js ''FOUR'')) None)
     = Some (js ''ONE'' @ [NEWLINE] @ js ''  '' @ [NEWLINE] @ js ''TWO''
        @ [NEWLINE] @ js ''THREE'' @ [NEWLINE] @ js ''FOUR'')
   \<and> js ''ONE'' @ [NEWLINE] @ js ''  '' @ [NEWLINE] @ js ''TWO''
        @ [NEWLINE] @ js ''THREE'' @ [NEWLINE] @ js ''FOUR'' \<noteq> []
   \<and> split_on NEWLINE (js ''ONE'' @ [NEWLINE] @ js ''  '' @ [NEWLINE] @ js ''TWO''
        @ [NEWLINE] @ js ''THREE'' @ [NEWLINE] @ js ''FOUR'')
     = [js ''ONE'', js ''  '', js ''TWO'', js ''THREE'', js ''FOUR'']
   \<and> newsHeadlines (fst (fetchNews (Fulfilled (Response (Some (js ''ONE'' @ [NEWLINE] @ js ''  ''
        @ [NEWLINE] @ js ''TWO'' @ [NEWLINE] @ js ''THREE'' @ [NEWLINE] @ js ''FOUR'')) None))
        (initial 0)))
     = [js ''ONE'', js ''TWO'', js ''THREE'']"
  using fetchNews_headlines [of "Response (Some (js ''ONE'' @ [NEWLINE] @ js ''  '' @ [NEWLINE]
        @ js ''TWO'' @ [NEWLINE] @ js ''THREE'' @ [NEWLINE] @ js ''FOUR'')) None"
      "js ''ONE'' @ [NEWLINE] @ js ''  '' @ [NEWLINE] @ js ''TWO''
        @ [NEWLINE] @ js ''THREE'' @ [NEWLINE] @ js ''FOUR''" "initial 0"]
  by (simp add: js_def trim_def is_ws_def)

text \<open>
  C8. When the engine call fails, the headlines are the three fallback lines, verbatim
  and in order, and the run has issued the one request and no other: nothing is retried.
\<close>

theorem fetchNews_failure:
  "fetchNews ServiceError st =
     (st\<lparr> newsHeadlines :=
            [js ''NETWORK ERROR: UNABLE TO SYNC WITH WORLD DATA.'',
             js ''LOCAL CACHE LOADED.'',
             js ''SYSTEM DIAGNOSTICS RECOMMENDED.''] \<rparr>,
      [newsRequest])"
  by (simp add: fetchNews_def newsFallback_def)

theorem fetchNews_failure_witness:
  "newsHeadlines (fst (fetchNews ServiceError (initial 0))) =
     [js ''NETWORK ERROR: UNABLE TO SYNC WITH WORLD DATA.'',
      js ''LOCAL CACHE LOADED.'',
      js ''SYSTEM DIAGNOSTICS RECOMMENDED.'']
   \<and> length (snd (fetchNews ServiceError (initial 0))) = 1"
  using fetchNews_failure [of "initial 0"] by simp


section \<open>Search Orchestrator\<close>

lemma run_Nil: "run [] s = s"
  by (simp add: run_def)

lemma run_Cons: "run (e # evs) s = run evs (step e s)"
  by (simp add: run_def)

lemma run_append: "run (evs @ evs') s = run evs' (run evs s)"
  by (simp add: run_def)

text \<open>
  C1, as stated, fails. Query A is submitted, then query B; the answer to B arrives
  first and is shown; the answer to A arrives afterwards and replaces it, though B is
  the latest query. No request carries an identifier, and the code after the
  \<^verbatim>\<open>await\<close> commits whatever settled.
\<close>

theorem stale_response_counterexample:
  "snd (run [Change (js ''A''), KeyDown (js ''Enter''),
             Change (js ''B''), KeyDown (js ''Enter'')] (initial 0, []))
     = [searchRequest (js ''A''), searchRequest (js ''B'')]
   \<and> fst (run [Change (js ''A''), KeyDown (js ''Enter''),
                Change (js ''B''), KeyDown (js ''Enter''),
                Settle 1 (Fulfilled (Response (Some (js ''answer to B'')) None))]
             (initial 0, []))
     = (initial 0)\<lparr> searchQuery := js ''B'', searchResult := Some (js ''answer to B'') \<rparr>
   \<and> run [Change (js ''A''), KeyDown (js ''Enter''),
           Change (js ''B''), KeyDown (js ''Enter''),
           Settle 1 (Fulfilled (Response (Some (js ''answer to B'')) None)),
           Settle 0 (Fulfilled (Response (Some (js ''answer to A'')) None))]
        (initial 0, [])
     = ((initial 0)\<lparr> searchQuery := js ''B'', searchResult := Some (js ''answer to A'') \<rparr>, [])"
  by (simp add: run_def handleSearch_def handleSearch_settled_def initial_def searchRequest_def
      js_def trim_def is_ws_def)

text \<open>
  C1, amended. Requests carry no identifier, and every response is committed when it
  settles, whether or not a newer request has been issued since: after any run of
  events, settling any request still in flight sets the result text to that outcome's
  text (the fixed error text on a failure), sets the links to that response's web
  chunks when it has grounding chunks and leaves them alone otherwise, ends the
  pending state, and takes the request out of flight. The session shows the response
  that settled last.
\<close>

theorem last_settled_wins:
  assumes "run evs s = (st, inflight)" and "i < length inflight"
  shows "searchResult (fst (run (evs @ [Settle i outcome]) s)) =
           (case outcome of
              Fulfilled r \<Rightarrow> response_text r
            | ServiceError \<Rightarrow> Some (js ''CONNECTION INTERRUPTED. TARGET NOT FOUND.''))
    \<and> groundingUrls (fst (run (evs @ [Settle i outcome]) s)) =
           (case outcome of
              Fulfilled r \<Rightarrow>
                (case groundingChunks r of None \<Rightarrow> groundingUrls st
                 | Some chunks \<Rightarrow> extractUrls chunks)
            | ServiceError \<Rightarrow> groundingUrls st)
    \<and> \<not> isSearching (fst (run (evs @ [Settle i outcome]) s))
    \<and> snd (run (evs @ [Settle i outcome]) s) = take i inflight @ drop (Suc i) inflight"
  using assms
  by (simp add: run_append run_Cons run_Nil handleSearch_settled_def Let_def
      split: engine_outcome.splits option.splits)

theorem last_settled_wins_witness:
  "run [Change (js ''A''), KeyDown (js ''Enter''), Change (js ''B''), KeyDown (js ''Enter''),
        Settle 1 (Fulfilled (Response (Some (js ''answer to B'')) None))] (initial 0, [])
     = ((initial 0)\<lparr> searchQuery := js ''B'', searchResult := Some (js ''answer to B'') \<rparr>,
        [searchRequest (js ''A'')])
   \<and> 0 < length [searchRequest (js ''A'')]
   \<and> searchResult (fst (run ([Change (js ''A''), KeyDown (js ''Enter''), Change (js ''B''),
         KeyDown (js ''Enter''),
         Settle 1 (Fulfilled (Response (Some (js ''answer to B'')) None))]
         @ [Settle 0 (Fulfilled (Response (Some (js ''answer to A'')) None))]) (initial 0, [])))
     = Some (js ''answer to A'')
   \<and> \<not> isSearching (fst (run ([Change (js ''A''), KeyDown (js ''Enter''), Change (js ''B''),
         KeyDown (js ''Enter''),
         Settle 1 (Fulfilled (Response (Some (js ''answer to B'')) None))]
         @ [Settle 0 (Fulfilled (Response (Some (js ''answer to A'')) None))]) (initial 0, [])))"
proof -
  have r: "run [Change (js ''A''), KeyDown (js ''Enter''), Change (js ''B''), KeyDown (js ''Enter''),
        Settle 1 (Fulfilled (Response (Some (js ''answer to B'')) None))] (initial 0, [])
     = ((initial 0)\<lparr> searchQuery := js ''B'', searchResult := Some (js ''answer to B'') \<rparr>,
        [searchRequest (js ''A'')])"
    by (simp add: run_def handleSearch_def handleSearch_settled_def initial_def searchRequest_def
        js_def trim_def is_ws_def)
  have l: "0 < length [searchRequest (js ''A'')]" by simp
  from last_settled_wins [OF r l, of "Fulfilled (Response (Some (js ''answer to A'')) None)"] r
  show ?thesis by simp
qed

lemma extractUrls_Nil: "extractUrls [] = []"
  by (simp add: extractUrls_def)

lemma extractUrls_Cons:
  "extractUrls (c # cs) =
     (case web c of None \<Rightarrow> extractUrls cs
      | Some w \<Rightarrow> \<lparr> title = title w, uri = uri w \<rparr> # extractUrls cs)"
  by (simp add: extractUrls_def split: option.splits)

text \<open>
  C5, as stated, fails. The filter keeps the chunks that have a \<^verbatim>\<open>web\<close> object and
  does not look at the object's \<^verbatim>\<open>uri\<close>: a web chunk without one is committed, and
  rendered, as a link without target.
\<close>

theorem citation_without_uri_counterexample:
  "groundingUrls
     (fst (run [Change (js ''q''), KeyDown (js ''Enter''),
                Settle 0 (Fulfilled (Response (Some (js ''ok''))
                  (Some [Chunk (Some \<lparr> title = Some (js ''Wiki''), uri = None, domain = None \<rparr>)])))]
             (initial 0, [])))
   = [\<lparr> title = Some (js ''Wiki''), uri = None \<rparr>]
   \<and> feedPane
     (fst (run [Change (js ''q''), KeyDown (js ''Enter''),
                Settle 0 (Fulfilled (Response (Some (js ''ok''))
                  (Some [Chunk (Some \<lparr> title = Some (js ''Wiki''), uri = None, domain = None \<rparr>)])))]
             (initial 0, [])))
   = SearchResults (js ''ok'') [\<lparr> title = Some (js ''Wiki''), uri = None \<rparr>]"
  by (simp add: run_def handleSearch_def handleSearch_settled_def extractUrls_def feedPane_def
      truthy_def initial_def searchRequest_def js_def trim_def is_ws_def)

text \<open>
  C5, amended. When a search succeeds with grounding chunks, the committed links are
  the chunks that have a \<^verbatim>\<open>web\<close> object, in their order, each with the title and the
  uri of that object as they are; the chunks without a \<^verbatim>\<open>web\<close> object are dropped.
  Without grounding chunks the links are left as they were.
\<close>

theorem citations_are_web_chunks:
  "groundingUrls (handleSearch_settled (Fulfilled r) st) =
     (case groundingChunks r of
        None \<Rightarrow> groundingUrls st
      | Some chunks \<Rightarrow>
          map (\<lambda>w. \<lparr> title = title w, uri = uri w \<rparr>) (List.map_filter web chunks))"
proof -
  have "extractUrls chunks =
      map (\<lambda>w. \<lparr> title = title w, uri = uri w \<rparr>) (List.map_filter web chunks)" for chunks
    by (induction chunks) (simp_all add: extractUrls_Nil extractUrls_Cons map_filter_simps
        split: option.splits)
  then show ?thesis
    by (simp add: handleSearch_settled_def Let_def split: option.splits)
qed

theorem citations_are_web_chunks_witness:
  "groundingUrls (handleSearch_settled
      (Fulfilled (Response (Some (js ''ok''))
         (Some [Chunk None,
                Chunk (Some \<lparr> title = Some (js ''A''), uri = Some (js ''https://a.example''),
                               domain = None \<rparr>),
                Chunk (Some \<lparr> title = Some (js ''B''), uri = None, domain = None \<rparr>)])))
      (initial 0))
   = [\<lparr> title = Some (js ''A''), uri = Some (js ''https://a.example'') \<rparr>,
      \<lparr> title = Some (js ''B''), uri = None \<rparr>]"
  using citations_are_web_chunks [of "Response (Some (js ''ok''))
         (Some [Chunk None,
                Chunk (Some \<lparr> title = Some (js ''A''), uri = Some (js ''https://a.example''),
                               domain = None \<rparr>),
                Chunk (Some \<lparr> title = Some (js ''B''), uri = None, domain = None \<rparr>)])"
      "initial 0"]
  by (simp add: map_filter_simps)


section \<open>Display Mode Selector\<close>

text \<open>
  C9, as stated, fails. The pane tests the result text for truthiness, not against
  \<^verbatim>\<open>null\<close>: a search that succeeds with the empty string leaves a result that is
  not \<^verbatim>\<open>null\<close>, and the pane shows the headlines.
\<close>

theorem empty_result_counterexample:
  "\<not> isSearching ((initial 0)\<lparr> searchResult := Some [], newsHeadlines := [js ''H''] \<rparr>)
   \<and> searchResult ((initial 0)\<lparr> searchResult := Some [], newsHeadlines := [js ''H''] \<rparr>) \<noteq> None
   \<and> feedPane ((initial 0)\<lparr> searchResult := Some [], newsHeadlines := [js ''H''] \<rparr>)
       = Headlines [js ''H'']
   \<and> handleSearch_settled (Fulfilled (Response (Some []) None))
        (fst (handleSearch (js ''Enter'')
               ((initial 0)\<lparr> searchQuery := js ''q'', newsHeadlines := [js ''H''] \<rparr>)))
       = (initial 0)\<lparr> searchQuery := js ''q'', searchResult := Some [],
                          newsHeadlines := [js ''H''] \<rparr>"
  by (simp add: feedPane_def truthy_def initial_def handleSearch_def handleSearch_settled_def
      js_def trim_def is_ws_def)

text \<open>
  C9, amended. The pane is a function of the pending flag, the result text, the links
  and the headlines. Pending gives the querying indicator; otherwise a result text that
  is neither \<^verbatim>\<open>null\<close> nor empty gives the search view with the links; otherwise the
  headlines, or the loading placeholder when there are none. With nothing pending and
  headlines loaded, the HOME button always gives the headline view.
\<close>

theorem feedPane_modes:
  "(isSearching st \<longrightarrow> feedPane st = Querying)
   \<and> (\<not> isSearching st \<and> searchResult st = Some answer \<and> answer \<noteq> []
        \<longrightarrow> feedPane st = SearchResults answer (groundingUrls st))
   \<and> (\<not> isSearching st \<and> (searchResult st = None \<or> searchResult st = Some [])
        \<longrightarrow> feedPane st =
            (if newsHeadlines st = [] then InitializingFeed else Headlines (newsHeadlines st)))
   \<and> (\<not> isSearching st \<and> newsHeadlines st \<noteq> []
        \<longrightarrow> feedPane (home st) = Headlines (newsHeadlines st))
   \<and> (isSearching st = isSearching st' \<and> searchResult st = searchResult st'
        \<and> groundingUrls st = groundingUrls st' \<and> newsHeadlines st = newsHeadlines st'
        \<longrightarrow> feedPane st = feedPane st')"
  by (auto simp: feedPane_def truthy_def home_def split: option.splits)

theorem feedPane_modes_witness:
  "feedPane ((initial 0)\<lparr> isSearching := True, searchResult := Some (js ''old''),
                            newsHeadlines := [js ''H''] \<rparr>) = Querying
   \<and> feedPane ((initial 0)\<lparr> searchResult := Some (js ''ok''), newsHeadlines := [js ''H''] \<rparr>)
       = SearchResults (js ''ok'') []
   \<and> feedPane (initial 0) = InitializingFeed
   \<and> feedPane (home ((initial 0)\<lparr> searchResult := Some (js ''ok''),
                                    newsHeadlines := [js ''H''] \<rparr>))
       = Headlines [js ''H'']"
  using
    feedPane_modes [of "(initial 0)\<lparr> isSearching := True, searchResult := Some (js ''old''),
                            newsHeadlines := [js ''H''] \<rparr>" "js ''x''" "initial 0"]
    feedPane_modes [of "(initial 0)\<lparr> searchResult := Some (js ''ok''), newsHeadlines := [js ''H''] \<rparr>"
      "js ''ok''" "initial 0"]
    feedPane_modes [of "initial 0" "js ''x''" "initial 0"]
  by (simp add: initial_def js_def home_def)


section \<open>Timer and listener lifecycle\<close>

subsection \<open>Every page that can be reached is tidy\<close>

lemma tidy_start: "tidy (start now reading)"
  by (simp add: tidy_def start_def)

lemma setState_same_playing:
  assumes "\<And>st. isPlaying (f st) = isPlaying st"
  shows "setState f pg = (if phase pg = Mounted then pg\<lparr> component := f (component pg) \<rparr> else pg)"
  using assms by (simp add: setState_def Let_def)

lemma tidy_playing:
  assumes "tidy pg" and "phase pg = Mounted" and "isPlaying (component pg)"
  obtains c m where "clockTimer pg = Some c" and "mediaInterval pg = Some (Some m)"
    and "c < nextHandle pg" and "m < nextHandle pg" and "m \<noteq> c"
    and "intervals pg = [(c, SetTime), (m, AdvanceProgress)]"
  using assms unfolding tidy_def
  by (cases "clockTimer pg"; cases "mediaInterval pg"; cases "the (mediaInterval pg)") auto

lemma tidy_paused:
  assumes "tidy pg" and "phase pg = Mounted" and "\<not> isPlaying (component pg)"
  obtains c where "clockTimer pg = Some c" and "mediaInterval pg = Some None"
    and "c < nextHandle pg" and "intervals pg = [(c, SetTime)]"
  using assms unfolding tidy_def
  by (cases "clockTimer pg"; cases "mediaInterval pg"; cases "the (mediaInterval pg)") auto

lemma tidy_not_mounted:
  assumes "phase pg \<noteq> Mounted"
  shows "tidy pg = (clockTimer pg = None \<and> mediaInterval pg = None \<and> intervals pg = [])"
  using assms unfolding tidy_def by (cases "phase pg") auto

lemma tidy_component:
  assumes "tidy pg" and "isPlaying st = isPlaying (component pg)"
  shows "tidy (pg\<lparr> component := st \<rparr>)"
  using assms by (simp add: tidy_def)

lemma tidy_invoked: "tidy (pg\<lparr> invoked := l \<rparr>) = tidy pg"
  by (simp add: tidy_def)

lemma tidy_listeners: "tidy (pg\<lparr> listeners := l \<rparr>) = tidy pg"
  by (simp add: tidy_def)

lemma tidy_clock: "tidy (pg\<lparr> clock := n \<rparr>) = tidy pg"
  by (simp add: tidy_def)

lemma tidy_bat: "tidy (pg\<lparr> bat := r \<rparr>) = tidy pg"
  by (simp add: tidy_def)

lemma tidy_batteryPromises: "tidy (pg\<lparr> batteryPromises := n \<rparr>) = tidy pg"
  by (simp add: tidy_def)

lemma tidy_setState_same:
  assumes "tidy pg" and "\<And>st. isPlaying (f st) = isPlaying st"
  shows "tidy (setState f pg)"
  using assms by (simp add: setState_same_playing tidy_component)

lemma tidy_call: "tidy pg \<Longrightarrow> tidy (call cb pg)"
  by (cases cb) (simp_all add: call_def Let_def tidy_setState_same tidy_invoked)

lemma tidy_fold_call: "tidy pg \<Longrightarrow> tidy (fold (\<lambda>t. call (snd t)) ts pg)"
  by (induction ts arbitrary: pg) (simp_all add: tidy_call)

lemma tidy_rerun:
  assumes "tidy pg" and "phase pg = Mounted" and "isPlaying st \<noteq> isPlaying (component pg)"
  shows "tidy (mediaEffect (mediaEffect_cleanup (pg\<lparr> component := st \<rparr>)))"
proof (cases "isPlaying (component pg)")
  case True
  from tidy_playing [OF assms(1,2) True] obtain c m where
    "clockTimer pg = Some c" "mediaInterval pg = Some (Some m)"
    "c < nextHandle pg" "m < nextHandle pg" "m \<noteq> c"
    "intervals pg = [(c, SetTime), (m, AdvanceProgress)]" .
  with True assms(2,3) show ?thesis
    by (simp add: tidy_def mediaEffect_def mediaEffect_cleanup_def clearInterval_def)
next
  case False
  from tidy_paused [OF assms(1,2) False] obtain c where
    "clockTimer pg = Some c" "mediaInterval pg = Some None"
    "c < nextHandle pg" "intervals pg = [(c, SetTime)]" .
  with False assms(2,3) show ?thesis
    by (simp add: tidy_def mediaEffect_def mediaEffect_cleanup_def clearInterval_def
        setInterval_def)
qed

lemma tidy_setState: "tidy pg \<Longrightarrow> tidy (setState f pg)"
  by (cases "phase pg = Mounted")
     (simp_all add: setState_def Let_def tidy_rerun tidy_component)

lemma tidy_mount: "tidy pg \<Longrightarrow> tidy (page_step (Mount b) pg)"
proof (cases "phase pg = Fresh")
  case True
  assume "tidy pg"
  with True have "clockTimer pg = None \<and> mediaInterval pg = None \<and> intervals pg = []"
    by (simp add: tidy_not_mounted)
  with True show ?thesis
    by (cases "isPlaying (component pg)")
       (simp_all add: tidy_def batteryEffect_def mediaEffect_def clockEffect_def setInterval_def)
next
  case False
  assume "tidy pg"
  with False show ?thesis by simp
qed

lemma tidy_unmount: "tidy pg \<Longrightarrow> tidy (page_step Unmount pg)"
proof (cases "phase pg = Mounted")
  case mounted: True
  assume t: "tidy pg"
  show ?thesis
  proof (cases "isPlaying (component pg)")
    case True
    from tidy_playing [OF t mounted True] obtain c m where
      "clockTimer pg = Some c" "mediaInterval pg = Some (Some m)"
      "c < nextHandle pg" "m < nextHandle pg" "m \<noteq> c"
      "intervals pg = [(c, SetTime), (m, AdvanceProgress)]" .
    with mounted show ?thesis
      by (simp add: tidy_not_mounted mediaEffect_cleanup_def clockEffect_cleanup_def
          clearInterval_def)
  next
    case False
    from tidy_paused [OF t mounted False] obtain c where
      "clockTimer pg = Some c" "mediaInterval pg = Some None"
      "c < nextHandle pg" "intervals pg = [(c, SetTime)]" .
    with mounted show ?thesis
      by (simp add: tidy_not_mounted mediaEffect_cleanup_def clockEffect_cleanup_def
          clearInterval_def)
  qed
next
  case False
  assume "tidy pg"
  with False show ?thesis by simp
qed

lemma tidy_step: "tidy pg \<Longrightarrow> tidy (page_step e pg)"
proof (cases e)
  case (Mount b)
  assume "tidy pg"
  with Mount show ?thesis by (simp only: tidy_mount)
next
  case BatteryResolved
  assume "tidy pg"
  with BatteryResolved show ?thesis
    by (simp add: batteryEffect_then_def addEventListener_def tidy_listeners tidy_call
        tidy_batteryPromises)
next
  case Elapse
  assume "tidy pg"
  with Elapse show ?thesis by (simp add: Let_def tidy_fold_call tidy_clock)
next
  case (BatteryChange ev r)
  assume "tidy pg"
  with BatteryChange show ?thesis by (simp add: Let_def tidy_fold_call tidy_bat)
next
  case ClickPlay
  assume "tidy pg"
  with ClickPlay show ?thesis by (simp add: tidy_setState)
next
  case ClickNext
  assume "tidy pg"
  with ClickNext show ?thesis by (simp add: tidy_setState)
next
  case Unmount
  assume "tidy pg"
  with Unmount show ?thesis by (simp only: tidy_unmount)
qed

lemma tidy_run: "tidy pg \<Longrightarrow> tidy (page_run evs pg)"
  unfolding page_run_def by (induction evs arbitrary: pg) (simp_all add: tidy_step)

lemma reachable_tidy: "tidy (page_run evs (start now reading))"
  by (simp add: tidy_run tidy_start)

subsection \<open>The clock and the progress timer are released\<close>

text \<open>
  Unmounting leaves no live timer, so a second passing afterwards moves the browser's
  clock and nothing else: no callback runs and the state is as it was. Pausing clears
  the progress timer, and while paused a second passing leaves the progress alone.
\<close>

lemma unmount_clears_timers:
  assumes "tidy pg"
  shows "intervals (page_step Unmount pg) = []"
proof (cases "phase pg = Mounted")
  case True
  then have "phase (page_step Unmount pg) \<noteq> Mounted"
    by (simp add: mediaEffect_cleanup_def clockEffect_cleanup_def clearInterval_def
        split: option.splits)
  with tidy_unmount [OF assms] show ?thesis by (simp add: tidy_not_mounted)
next
  case False
  with assms show ?thesis by (simp add: tidy_not_mounted)
qed

lemma elapse_without_timers:
  assumes "intervals pg = []"
  shows "page_step Elapse pg = pg\<lparr> clock := clock pg + 1000 \<rparr>"
  using assms by (simp add: Let_def)

lemma quiet_after_unmount:
  assumes "tidy pg"
  shows "page_step Elapse (page_step Unmount pg)
           = (page_step Unmount pg)\<lparr> clock := clock (page_step Unmount pg) + 1000 \<rparr>"
  using unmount_clears_timers [OF assms] by (rule elapse_without_timers)

lemma pause_clears_progress_timer:
  assumes "tidy pg" and "phase pg = Mounted" and "isPlaying (component pg)"
  shows "AdvanceProgress \<notin> snd ` set (intervals (page_step ClickPlay pg))"
proof -
  let ?pg = "page_step ClickPlay pg"
  from assms(2,3) have ph: "phase ?pg = Mounted" and np: "\<not> isPlaying (component ?pg)"
    by (simp_all add: setState_def togglePlay_def Let_def mediaEffect_def
        mediaEffect_cleanup_def clearInterval_def split: option.splits)
  have "tidy ?pg" using assms(1) by (rule tidy_step)
  from tidy_paused [OF this ph np] obtain c where "intervals ?pg = [(c, SetTime)]" by blast
  then show ?thesis by simp
qed

lemma paused_progress_still:
  assumes "tidy pg" and "phase pg = Mounted" and "\<not> isPlaying (component pg)"
  shows "trackProgress (component (page_step Elapse pg)) = trackProgress (component pg)"
proof -
  from tidy_paused [OF assms] obtain c where "intervals pg = [(c, SetTime)]" by blast
  with assms(2) show ?thesis
    by (simp add: Let_def call_def setState_def)
qed

subsection \<open>The battery listeners are not\<close>

text \<open>
  No event ever takes a listener off the battery manager: the list only grows, and
  unmounting leaves it as it is.
\<close>

lemma listeners_setState: "listeners (setState f pg) = listeners pg"
  by (simp add: setState_def Let_def mediaEffect_def mediaEffect_cleanup_def clearInterval_def
      setInterval_def split: option.splits)

lemma listeners_call: "listeners (call cb pg) = listeners pg"
  by (cases cb) (simp_all add: call_def Let_def listeners_setState)

lemma listeners_fold_call: "listeners (fold (\<lambda>t. call (snd t)) ts pg) = listeners pg"
  by (induction ts arbitrary: pg) (simp_all add: listeners_call)

lemma listeners_unmount: "listeners (page_step Unmount pg) = listeners pg"
  by (simp add: mediaEffect_cleanup_def clockEffect_cleanup_def clearInterval_def
      split: option.splits)

lemma listeners_never_released: "prefix (listeners pg) (listeners (page_step e pg))"
proof (cases e)
  case (Mount b)
  then show ?thesis
    by (simp add: batteryEffect_def mediaEffect_def clockEffect_def setInterval_def)
next
  case BatteryResolved
  then show ?thesis
    by (simp add: batteryEffect_then_def addEventListener_def listeners_call)
next
  case Elapse
  then show ?thesis by (simp add: Let_def listeners_fold_call)
next
  case (BatteryChange ev r)
  then show ?thesis by (simp add: Let_def listeners_fold_call)
next
  case ClickPlay
  then show ?thesis by (simp add: listeners_setState)
next
  case ClickNext
  then show ?thesis by (simp add: listeners_setState)
next
  case Unmount
  then show ?thesis by (simp only: listeners_unmount prefix_order.order_refl)
qed

text \<open>
  C2 asks that deactivation leave no live timer and no live registration, and that the
  battery effect release its two listeners on teardown. The timers are released (see
  above); the listeners are not. Mount in a browser with \<^verbatim>\<open>getBattery\<close>, start
  playback, let the battery promise resolve, unmount: both timers are gone, but the
  \<^verbatim>\<open>levelchange\<close> and \<^verbatim>\<open>chargingchange\<close> listeners are still registered, and a
  level change after the teardown calls \<^verbatim>\<open>updateBattery\<close> once more.
\<close>

theorem battery_listeners_survive_unmount:
  "intervals (page_run [Mount True, ClickPlay, BatteryResolved, Unmount]
               (start 0 \<lparr> level = 1/2, charging = False \<rparr>)) = []
   \<and> listeners (page_run [Mount True, ClickPlay, BatteryResolved, Unmount]
               (start 0 \<lparr> level = 1/2, charging = False \<rparr>))
       = [(levelchange, UpdateBattery), (chargingchange, UpdateBattery)]
   \<and> invoked (page_run [Mount True, ClickPlay, BatteryResolved, Unmount]
               (start 0 \<lparr> level = 1/2, charging = False \<rparr>))
       = [UpdateBattery]
   \<and> invoked (page_run [Mount True, ClickPlay, BatteryResolved, Unmount, Elapse,
                         BatteryChange levelchange \<lparr> level = 1/4, charging = False \<rparr>]
               (start 0 \<lparr> level = 1/2, charging = False \<rparr>))
       = [UpdateBattery, UpdateBattery]"
  by (simp add: page_run_def start_def initial_def batteryEffect_def batteryEffect_then_def
      mediaEffect_def mediaEffect_cleanup_def clockEffect_def clockEffect_cleanup_def
      setInterval_def clearInterval_def addEventListener_def call_def setState_def
      togglePlay_def Let_def)


section \<open>An answer without text\<close>

text \<open>
  C10. When the engine call succeeds with an absent or empty text, \<^verbatim>\<open>fetchWeather\<close>
  and \<^verbatim>\<open>fetchNews\<close> leave every slot as it was; so, with no search going on, a headline
  list that was empty still renders the loading placeholder.
\<close>

theorem empty_text_leaves_slot:
  assumes "response_text r = None \<or> response_text r = Some []"
  shows "fetchWeather (Position pos) (Fulfilled r) st = (st, [weatherRequest pos])
    \<and> fetchNews (Fulfilled r) st = (st, [newsRequest])
    \<and> (newsHeadlines st = [] \<and> \<not> isSearching st \<and> \<not> truthy (searchResult st)
        \<longrightarrow> feedPane (fst (fetchNews (Fulfilled r) st)) = InitializingFeed)"
  using assms by (auto simp: fetchWeather_def fetchNews_def truthy_def feedPane_def)

theorem empty_text_leaves_slot_witness:
  "(response_text (Response (Some []) None) = None
      \<or> response_text (Response (Some []) None) = Some [])
   \<and> fetchWeather (Position \<lparr> latitude = 0, longitude = 0 \<rparr>)
        (Fulfilled (Response (Some []) None)) (initial 0)
      = (initial 0, [weatherRequest \<lparr> latitude = 0, longitude = 0 \<rparr>])
   \<and> fetchNews (Fulfilled (Response (Some []) None)) (initial 0) = (initial 0, [newsRequest])
   \<and> newsHeadlines (initial 0) = [] \<and> \<not> isSearching (initial 0)
   \<and> \<not> truthy (searchResult (initial 0))
   \<and> feedPane (fst (fetchNews (Fulfilled (Response (Some []) None)) (initial 0)))
      = InitializingFeed"
proof -
  have h: "response_text (Response (Some []) None) = None
      \<or> response_text (Response (Some []) None) = Some []" by simp
  have a: "newsHeadlines (initial 0) = [] \<and> \<not> isSearching (initial 0)
      \<and> \<not> truthy (searchResult (initial 0))"
    by (simp add: initial_def truthy_def)
  from empty_text_leaves_slot [OF h, of "\<lparr> latitude = 0, longitude = 0 \<rparr>" "initial 0"] h a
  show ?thesis by blast
qed

end
